theory Spec2Isabelle
  imports Complex_Main
begin

section \<open>Python values and errors\<close>

text \<open>
  The script \<^verbatim>\<open>dcmdat2niix.py\<close> is one procedure, \<^verbatim>\<open>main\<close>. Each of its steps is
  embedded as a function of its own. An exception is a value: a step returns
  \<open>py_error + 'a\<close>, with \<open>Inl\<close> for the exception the Python raises.
\<close>

datatype py_error =
    ValueError string
  | IndexError
  | KeyError string
  | TypeError

section \<open>Echo-time extraction (lines 69 to 74)\<close>

text \<open>
  \<^verbatim>\<open>TEs = np.array([float(...) / 1e6 for l in lines[i + 1 : i + 9]])\<close>
  \<^verbatim>\<open>diff = TEs[1:] - TEs[0:-1]\<close>
  \<^verbatim>\<open>TEs = np.insert(TEs[1:][diff > 0], 0, TEs[0])\<close>

  The input of the model is the list of numbers that \<^verbatim>\<open>float\<close> reads from the lines
  after the \<^verbatim>\<open>alTE\<close> line. A float array is a list of reals: the filter only subtracts
  two entries and tests the sign of the difference, and for finite floats the sign of
  \<open>a - b\<close> is the sign of the exact difference.
\<close>

definition scale_TEs :: "real list \<Rightarrow> real list" where
  "scale_TEs vs = map (\<lambda>v. v / 1000000) (take 8 vs)"

definition np_diff :: "real list \<Rightarrow> real list" where
  "np_diff TEs = map (\<lambda>(a, b). a - b) (zip (tl TEs) (butlast TEs))"

definition mask_select :: "real list \<Rightarrow> bool list \<Rightarrow> real list" where
  "mask_select xs sel = map fst (filter snd (zip xs sel))"

definition valid_TEs :: "real list \<Rightarrow> py_error + real list" where
  "valid_TEs TEs =
     (let diff = np_diff TEs;
          kept = mask_select (tl TEs) (map (\<lambda>d. d > 0) diff)
      in case TEs of [] \<Rightarrow> Inl IndexError | t0 # _ \<Rightarrow> Inr (t0 # kept))"

definition extract_TEs :: "real list \<Rightarrow> py_error + real list" where
  "extract_TEs vs = valid_TEs (scale_TEs vs)"

text \<open>
  Two ways to say which entries survive, used to state the properties of the filter.
  \<open>keep_rises p xs\<close> walks the raw list with the raw predecessor \<open>p\<close> and keeps an
  entry exactly when it is greater than \<open>p\<close>. \<open>rises_exceed m p xs\<close> says that every
  entry of \<open>xs\<close> that is greater than its raw predecessor is also greater than \<open>m\<close>, the
  greatest raw entry before it.
\<close>

fun keep_rises :: "real \<Rightarrow> real list \<Rightarrow> real list" where
  "keep_rises p [] = []"
| "keep_rises p (x # xs) = (if p < x then x # keep_rises x xs else keep_rises x xs)"

fun rises_exceed :: "real \<Rightarrow> real \<Rightarrow> real list \<Rightarrow> bool" where
  "rises_exceed m p [] = True"
| "rises_exceed m p (x # xs) = ((p < x \<longrightarrow> m < x) \<and> rises_exceed (max m x) x xs)"

definition rises_exceed_all_earlier :: "real list \<Rightarrow> bool" where
  "rises_exceed_all_earlier TEs =
     (case TEs of [] \<Rightarrow> True | t0 # rest \<Rightarrow> rises_exceed t0 t0 rest)"

section \<open>Argument relay (lines 35 to 51)\<close>

text \<open>
  \<^verbatim>\<open>list.insert(i, x)\<close>: a negative index counts from the end, and an index out of
  range is clamped to the nearer end.
\<close>

definition py_insert :: "int \<Rightarrow> 'a \<Rightarrow> 'a list \<Rightarrow> 'a list" where
  "py_insert i x xs =
     (let n = int (length xs);
          j = (if i < 0 then max 0 (i + n) else min i n)
      in take (nat j) xs @ [x] @ drop (nat j) xs)"

fun py_index :: "'a \<Rightarrow> 'a list \<Rightarrow> nat" where
  "py_index a [] = 0"
| "py_index a (x # xs) = (if x = a then 0 else Suc (py_index a xs))"

definition verbose_conflict :: py_error where
  "verbose_conflict =
     ValueError ''Turn off verbose output (-v) as this conflicts with this script.''"

text \<open>Lines 35 to 40: the verbose flag and its level are inserted, or the call is refused.\<close>

definition inject_verbose :: "string list \<Rightarrow> py_error + string list" where
  "inject_verbose other_args =
     (if ''-v'' \<notin> set other_args then
        (let idx = int (length other_args) - 1;
             a1 = py_insert idx ''1'' other_args;
             a2 = py_insert idx ''-v'' a1
         in Inr a2)
      else Inl verbose_conflict)"

text \<open>
  What the relay does to the world, in order: it may create the output directory, and it
  calls the wrapped converter. The relay returns the effects it performed and either the
  exception that stopped it or the argument list it passed on.
\<close>

datatype relay_event = Mkdir string | Dicom2nifti "string list"

definition output_dir_events :: "string list \<Rightarrow> py_error + relay_event list" where
  "output_dir_events other_args =
     (if ''-o'' \<in> set other_args then
        (let o_index = py_index ''-o'' other_args
         in if o_index + 1 < length other_args
            then Inr [Mkdir (other_args ! (o_index + 1))]
            else Inl IndexError)
      else Inr [])"

definition relay :: "string list \<Rightarrow> relay_event list \<times> (py_error + string list)" where
  "relay other_args =
     (case inject_verbose other_args of
        Inl e \<Rightarrow> ([], Inl e)
      | Inr args \<Rightarrow>
          (case output_dir_events args of
             Inl e \<Rightarrow> ([], Inl e)
           | Inr evs \<Rightarrow> (evs @ [Dicom2nifti args], Inr args)))"

section \<open>Normalisation and the sanity check (lines 14 to 16 and 119 to 128)\<close>

text \<open>
  \<^verbatim>\<open>return (data - np.min(data)) / (np.max(data) - np.min(data))\<close>

  Scope of this part of the model. An array is the list of its entries, and the entries
  are finite numbers of element type \<^verbatim>\<open>float64\<close>, with exact arithmetic (rounding is left
  out). This is what line 120 and line 125 give for the decoded slice, which is cast by
  \<^verbatim>\<open>astype("f8")\<close>. The official image is passed to \<^verbatim>\<open>normalize\<close> as it is stored:
  when it is stored with an integer element type, the subtractions of line 16 are done in
  that type and wrap around once the range of the data exceeds the type. That case is
  outside the model; the properties below are stated at values where no integer type
  wraps. The special values of the division are kept: a quotient of two zeros is not a
  number, and a non-zero numerator over zero is an infinity. \<^verbatim>\<open>np.min\<close> and \<^verbatim>\<open>np.max\<close>
  raise on an empty array. \<^verbatim>\<open>np.isclose\<close> is taken with its default tolerances
  (relative 1e-5, absolute 1e-8); it is false as soon as one side is not a number.
\<close>

datatype f8 = Fin real | PInf | NInf | NaN

definition f8_div :: "real \<Rightarrow> real \<Rightarrow> f8" where
  "f8_div a b =
     (if b = 0 then (if a = 0 then NaN else if 0 < a then PInf else NInf)
      else Fin (a / b))"

definition zero_size :: py_error where
  "zero_size = ValueError ''zero-size array to reduction operation minimum which has no identity''"

definition np_min :: "real list \<Rightarrow> py_error + real" where
  "np_min data = (case data of [] \<Rightarrow> Inl zero_size | d # ds \<Rightarrow> Inr (fold min ds d))"

definition np_max :: "real list \<Rightarrow> py_error + real" where
  "np_max data = (case data of [] \<Rightarrow> Inl zero_size | d # ds \<Rightarrow> Inr (fold max ds d))"

definition normalize :: "real list \<Rightarrow> py_error + f8 list" where
  "normalize data =
     (case np_min data of Inl e \<Rightarrow> Inl e | Inr lo \<Rightarrow>
      case np_max data of Inl e \<Rightarrow> Inl e | Inr hi \<Rightarrow>
        Inr (map (\<lambda>x. f8_div (x - lo) (hi - lo)) data))"

fun isclose :: "f8 \<Rightarrow> f8 \<Rightarrow> bool" where
  "isclose (Fin a) (Fin b) = (\<bar>a - b\<bar> \<le> 1 / 100000000 + 1 / 100000 * \<bar>b\<bar>)"
| "isclose PInf PInf = True"
| "isclose NInf NInf = True"
| "isclose _ _ = False"

text \<open>
  The official image is three-dimensional (one frame, compared whole) or has a last axis
  of frames (the first frame is compared). The decoded array is indexed by echo, then by
  frame: \<open>data_array ! e ! f\<close> is the list of voxels of echo \<open>e\<close> and frame \<open>f\<close>.
  The two arrays compared are taken to have the same shape, as the slice of one volume and
  the first frame of the other do; arrays of unequal sizes are refused here, where
  \<^verbatim>\<open>numpy\<close> would first try to broadcast them.
\<close>

datatype dataobj = Vol3 "real list" | VolN "real list list"

definition first_frame :: "dataobj \<Rightarrow> py_error + real list" where
  "first_frame d =
     (case d of Vol3 v \<Rightarrow> Inr v
      | VolN frames \<Rightarrow> (case frames of [] \<Rightarrow> Inl IndexError | f0 # _ \<Rightarrow> Inr f0))"

definition first_echo_first_frame :: "real list list list \<Rightarrow> py_error + real list" where
  "first_echo_first_frame data_array =
     (case data_array of [] \<Rightarrow> Inl IndexError
      | e0 # _ \<Rightarrow> (case e0 of [] \<Rightarrow> Inl IndexError | f0 # _ \<Rightarrow> Inr f0))"

text \<open>The same positive scale and the same offset applied to every entry.\<close>

definition affine_rescale :: "real \<Rightarrow> real \<Rightarrow> real list \<Rightarrow> real list" where
  "affine_rescale s c data = map (\<lambda>v. s * v + c) data"

definition sanity_failed :: py_error where
  "sanity_failed = ValueError
     ''Sanity check failed. The first echo, first frame of the .dat files does not match the nifti.''"

definition broadcast_error :: py_error where
  "broadcast_error = ValueError ''operands could not be broadcast together''"

definition sanity_check :: "real list list list \<Rightarrow> dataobj \<Rightarrow> py_error + unit" where
  "sanity_check data_array nifti_dataobj =
     (case first_echo_first_frame data_array of Inl e \<Rightarrow> Inl e | Inr a \<Rightarrow>
      case normalize a of Inl e \<Rightarrow> Inl e | Inr na \<Rightarrow>
      case first_frame nifti_dataobj of Inl e \<Rightarrow> Inl e | Inr b \<Rightarrow>
      case normalize b of Inl e \<Rightarrow> Inl e | Inr nb \<Rightarrow>
        if length na \<noteq> length nb then Inl broadcast_error
        else if list_all2 isclose na nb then Inr ()
        else Inl sanity_failed)"

section \<open>Strings and paths (Python's \<^verbatim>\<open>str\<close> and \<^verbatim>\<open>pathlib\<close>)\<close>

text \<open>
  The loop of lines 135 to 181 works on file names: \<^verbatim>\<open>sub in s\<close> (substring test),
  \<^verbatim>\<open>s.replace(old, new)\<close> (every occurrence, left to right, without overlap),
  \<^verbatim>\<open>str(i + 1)\<close> (decimal digits), \<^verbatim>\<open>Path.name\<close> (the part after the last
  separator) and \<^verbatim>\<open>Path.with_suffix\<close>. A path is the string \<^verbatim>\<open>str\<close> gives for it,
  taken to be in the normal form \<^verbatim>\<open>Path\<close> keeps (no trailing separator).
\<close>

definition startswith :: "string \<Rightarrow> string \<Rightarrow> bool" where
  "startswith s pre = (take (length pre) s = pre)"

fun str_in :: "string \<Rightarrow> string \<Rightarrow> bool" where
  "str_in sub [] = (sub = [])"
| "str_in sub (c # cs) = (startswith (c # cs) sub \<or> str_in sub cs)"

function py_replace :: "string \<Rightarrow> string \<Rightarrow> string \<Rightarrow> string" where
  "py_replace old new [] = (if old = [] then new else [])"
| "py_replace old new (c # cs) =
     (if old = [] then new @ c # py_replace old new cs
      else if startswith (c # cs) old
      then new @ py_replace old new (drop (length old) (c # cs))
      else c # py_replace old new cs)"
  by pat_completeness auto
termination
  by (relation "measure (\<lambda>(old, new, s). length s)") auto

definition digit_char :: "nat \<Rightarrow> char" where
  "digit_char d = ''0123456789'' ! d"

function str_nat :: "nat \<Rightarrow> string" where
  "str_nat n = (if n < 10 then [digit_char n] else str_nat (n div 10) @ [digit_char (n mod 10)])"
  by pat_completeness auto
termination
  by (relation "measure id") auto

declare str_nat.simps [simp del]

text \<open>
  \<^verbatim>\<open>Path.name\<close> is the last component of the path; the path \<^verbatim>\<open>.\<close> (what \<^verbatim>\<open>Path\<close>
  makes of the empty string) and the root have an empty name.
  \<^verbatim>\<open>Path.suffix\<close> is the part of the name from its last dot on, when that dot is neither
  the first nor the last character of the name, and empty otherwise.
  \<^verbatim>\<open>with_suffix\<close> replaces that suffix, or appends to a name that has none, and raises
  \<^verbatim>\<open>ValueError\<close> on a path with an empty name.
\<close>

definition path_name :: "string \<Rightarrow> string" where
  "path_name p =
     (if p = ''.'' then [] else rev (takeWhile (\<lambda>c. c \<noteq> CHR ''/'') (rev p)))"

definition path_suffix :: "string \<Rightarrow> string" where
  "path_suffix p =
     (let name = path_name p;
          tail = rev (takeWhile (\<lambda>c. c \<noteq> CHR ''.'') (rev name))
      in if CHR ''.'' \<in> set name \<and> length tail + 1 < length name \<and> tail \<noteq> []
         then CHR ''.'' # tail else [])"

definition empty_name :: py_error where
  "empty_name = ValueError ''path has an empty name''"

definition with_suffix :: "string \<Rightarrow> string \<Rightarrow> py_error + string" where
  "with_suffix p suffix =
     (if path_name p = [] then Inl empty_name
      else Inr (take (length p - length (path_suffix p)) p @ suffix))"

section \<open>The metadata document (lines 81 to 82 and 164 to 174)\<close>

text \<open>
  \<^verbatim>\<open>json.load\<close> gives a dictionary from keys to Python values. A list is an object:
  the dictionary holds a reference to it, and the heap maps the reference to the list's
  entries. \<^verbatim>\<open>metadata.copy()\<close> is a new dictionary with the same values, so a list value
  is the same reference in the copy as in the original. Numbers, strings and nested
  objects are never updated in place by the script and are kept by value.
  \<open>document\<close> reads a dictionary through the heap: it is what \<^verbatim>\<open>json.dump\<close> would
  write for it.
\<close>

datatype json =
    JNull
  | JBool bool
  | JNum real
  | JStr string
  | JArr "json list"
  | JObj "(string \<times> json) list"

datatype pyval =
    PNone
  | PBool bool
  | PNum real
  | PStr string
  | PDict "(string \<times> json) list"
  | PList nat

type_synonym py_dict = "string \<Rightarrow> pyval option"

type_synonym list_heap = "nat \<Rightarrow> json list"

definition snapshot :: "list_heap \<Rightarrow> pyval \<Rightarrow> json" where
  "snapshot heap v =
     (case v of PNone \<Rightarrow> JNull | PBool b \<Rightarrow> JBool b | PNum r \<Rightarrow> JNum r | PStr s \<Rightarrow> JStr s
      | PDict kvs \<Rightarrow> JObj kvs | PList a \<Rightarrow> JArr (heap a))"

definition document :: "list_heap \<Rightarrow> py_dict \<Rightarrow> string \<Rightarrow> json option" where
  "document heap d = (\<lambda>k. map_option (snapshot heap) (d k))"

text \<open>
  Lines 170 to 174.
  \<^verbatim>\<open>te_idx = [t for t in range(len(metadata_copy["ImageTypeText"]))\<close>
  \<^verbatim>\<open>          if 'TE' in metadata_copy["ImageTypeText"][t]][0]\<close>
  \<^verbatim>\<open>metadata_copy["ImageTypeText"][te_idx] = f"TE{str(i + 1)}"\<close>
  inside \<^verbatim>\<open>try\<close> ... \<^verbatim>\<open>except IndexError: pass\<close>.

  \<^verbatim>\<open>'TE' in x\<close> is a substring test on a string, a membership test on a list, a key
  test on an object, and a \<^verbatim>\<open>TypeError\<close> on a number, a boolean or \<^verbatim>\<open>None\<close>. The
  comprehension tests every entry, so one such entry raises whatever the others hold.
  Only \<^verbatim>\<open>IndexError\<close> (no index found) is caught. A missing key raises \<^verbatim>\<open>KeyError\<close>.
  When the value is a string, its characters are tested and none contains \<^verbatim>\<open>TE\<close>; when
  it is a non-empty object, indexing it by \<^verbatim>\<open>0\<close> raises \<^verbatim>\<open>KeyError\<close>; a number, a
  boolean or \<^verbatim>\<open>None\<close> has no length.
\<close>

fun TE_in :: "json \<Rightarrow> py_error + bool" where
  "TE_in (JStr s) = Inr (str_in ''TE'' s)"
| "TE_in (JArr xs) = Inr (JStr ''TE'' \<in> set xs)"
| "TE_in (JObj kvs) = Inr (''TE'' \<in> fst ` set kvs)"
| "TE_in _ = Inl TypeError"

fun TE_flags :: "json list \<Rightarrow> py_error + bool list" where
  "TE_flags [] = Inr []"
| "TE_flags (x # xs) =
     (case TE_in x of Inl e \<Rightarrow> Inl e
      | Inr b \<Rightarrow> (case TE_flags xs of Inl e \<Rightarrow> Inl e | Inr bs \<Rightarrow> Inr (b # bs)))"

definition TE_indices :: "json list \<Rightarrow> py_error + nat list" where
  "TE_indices xs =
     (case TE_flags xs of Inl e \<Rightarrow> Inl e
      | Inr bs \<Rightarrow> Inr (filter (\<lambda>t. bs ! t) [0..<length xs]))"

definition relabel :: "nat \<Rightarrow> py_dict \<Rightarrow> list_heap \<Rightarrow> py_error + list_heap" where
  "relabel i metadata_copy heap =
     (case metadata_copy ''ImageTypeText'' of
        None \<Rightarrow> Inl (KeyError ''ImageTypeText'')
      | Some (PList a) \<Rightarrow>
          (case TE_indices (heap a) of
             Inl e \<Rightarrow> Inl e
           | Inr [] \<Rightarrow> Inr heap
           | Inr (te_idx # _) \<Rightarrow>
               Inr (heap(a := (heap a)[te_idx := JStr (''TE'' @ str_nat (i + 1))])))
      | Some (PStr s) \<Rightarrow> Inr heap
      | Some (PDict kvs) \<Rightarrow> (if kvs = [] then Inr heap else Inl (KeyError ''0''))
      | Some _ \<Rightarrow> Inl TypeError)"

section \<open>Per-echo materialization (lines 133 to 181)\<close>

text \<open>
  What the loop asks of the file system is recorded as a trace of events, in order: a
  file moved, an image written (pixel data, affine, header: the three arguments of
  \<^verbatim>\<open>nib.Nifti1Image\<close>), a metadata document written. The affine and the header are
  opaque. \<open>env\<close> holds what the loop only reads; \<open>state\<close> holds what it updates. A step
  returns the exception it raised, if any, and the state it reached, so the effects
  performed before an exception stay visible. \<open>data_array ! i\<close> is
  \<^verbatim>\<open>data_array[..., i, :]\<close>.

  Scope of this part of the model. The directory tree is not modelled: an operation that
  the loop issues is taken to succeed. The two files of the first echo exist when the
  loop starts (lines 79 and 87 to 91 raise otherwise), so a move or a write into their
  directory succeeds in the code as well. But lines 147 and 162 replace the marker in the
  whole path, directory part included, and a move or a write whose target lies in a
  directory that does not exist raises \<^verbatim>\<open>FileNotFoundError\<close> in the code. The properties
  below are therefore stated at paths whose directory part holds no marker, where every
  target lies beside the first-echo files.
\<close>

datatype ('aff, 'hdr) event =
    Move string string
  | WriteImage string "real list list" 'aff 'hdr
  | WriteJson string "string \<Rightarrow> json option"

record ('aff, 'hdr) env =
  metadata :: py_dict
  suffix :: string
  data_array :: "real list list list"
  affine :: 'aff
  header :: 'hdr

record ('aff, 'hdr) state =
  nifti :: string
  echo_prefix :: string
  nifti_img_path :: string
  nifti_json :: string
  heap :: list_heap
  trace :: "('aff, 'hdr) event list"

definition echo_slice :: "real list list list \<Rightarrow> nat \<Rightarrow> py_error + real list list" where
  "echo_slice arr i = (if i < length arr then Inr (arr ! i) else Inl IndexError)"

definition emit :: "('aff, 'hdr) event \<Rightarrow> ('aff, 'hdr) state \<Rightarrow> ('aff, 'hdr) state" where
  "emit ev st = st\<lparr>trace := trace st @ [ev]\<rparr>"

text \<open>
  Lines 156 to 159:
  \<^verbatim>\<open>if "_ph" in nifti.name:\<close>
  \<^verbatim>\<open>    nib.Nifti1Image(data_array[..., 0, :], nifti_img.affine, nifti_img.header)\<close>
  \<^verbatim>\<open>        .to_filename(nifti_img_path)\<close>
\<close>

definition resave_phase ::
  "('aff, 'hdr) env \<Rightarrow> ('aff, 'hdr) state \<Rightarrow> py_error option \<times> ('aff, 'hdr) state" where
  "resave_phase E st =
     (if str_in ''_ph'' (path_name (nifti st)) then
        (case echo_slice (data_array E) 0 of
           Inl e \<Rightarrow> (Some e, st)
         | Inr px \<Rightarrow> (None, emit (WriteImage (nifti_img_path st) px (affine E) (header E)) st))
      else (None, st))"

text \<open>
  Lines 136 to 160, the iteration \<^verbatim>\<open>i == 0\<close>. The \<^verbatim>\<open>continue\<close> of line 142 ends the
  iteration as soon as the name holds \<^verbatim>\<open>echo1\<close> (and not \<^verbatim>\<open>e1\<close>).
\<close>

definition first_echo ::
  "('aff, 'hdr) env \<Rightarrow> ('aff, 'hdr) state \<Rightarrow> py_error option \<times> ('aff, 'hdr) state" where
  "first_echo E st =
     (if \<not> str_in ''e1'' (path_name (nifti st)) then
        (if str_in ''echo1'' (path_name (nifti st)) then (None, st\<lparr>echo_prefix := ''echo''\<rparr>)
         else
           (let orig_img_path = nifti_img_path st;
                orig_json_path = nifti_json st;
                renamed = (if str_in ''_ph'' (path_name (nifti st))
                           then py_replace ''_ph'' ''_e1_ph'' (nifti st)
                           else nifti st @ ''_e1'')
            in case with_suffix renamed (suffix E) of
                 Inl e \<Rightarrow> (Some e, st\<lparr>nifti := renamed\<rparr>)
               | Inr img \<Rightarrow>
                   (case with_suffix renamed ''.json'' of
                      Inl e \<Rightarrow> (Some e, st\<lparr>nifti := renamed, nifti_img_path := img\<rparr>)
                    | Inr js \<Rightarrow>
                        resave_phase E
                          (emit (Move orig_json_path js)
                            (emit (Move orig_img_path img)
                              (st\<lparr>nifti := renamed, nifti_img_path := img,
                                  nifti_json := js\<rparr>))))))
      else resave_phase E st)"

text \<open>Lines 161 to 181, an iteration with \<^verbatim>\<open>i > 0\<close>.\<close>

definition later_echo ::
  "('aff, 'hdr) env \<Rightarrow> nat \<Rightarrow> real \<Rightarrow> ('aff, 'hdr) state
     \<Rightarrow> py_error option \<times> ('aff, 'hdr) state" where
  "later_echo E i t st =
     (let output_base = py_replace (echo_prefix st @ ''1'') (echo_prefix st @ str_nat (i + 1))
                           (nifti st);
          metadata_copy = metadata E;
          metadata_copy = metadata_copy(''EchoTime'' \<mapsto> PNum t);
          metadata_copy = metadata_copy(''ConversionSoftware'' \<mapsto> PStr ''dcmdat2niix'')
      in case relabel i metadata_copy (heap st) of
           Inl e \<Rightarrow> (Some e, st)
         | Inr ls \<Rightarrow>
             (let st1 = st\<lparr>heap := ls\<rparr>
              in case with_suffix output_base (suffix E) of
                   Inl e \<Rightarrow> (Some e, st1)
                 | Inr output_path \<Rightarrow>
                     (case echo_slice (data_array E) i of
                        Inl e \<Rightarrow> (Some e, st1)
                      | Inr px \<Rightarrow>
                          (let st2 = emit (WriteImage output_path px (affine E) (header E)) st1
                           in case with_suffix output_path ''.json'' of
                                Inl e \<Rightarrow> (Some e, st2)
                              | Inr output_json \<Rightarrow>
                                  (None, emit (WriteJson output_json
                                                 (document ls metadata_copy)) st2)))))"

definition echo_step ::
  "('aff, 'hdr) env \<Rightarrow> nat \<Rightarrow> real \<Rightarrow> ('aff, 'hdr) state
     \<Rightarrow> py_error option \<times> ('aff, 'hdr) state" where
  "echo_step E i t st = (if i = 0 then first_echo E st else later_echo E i t st)"

fun echo_loop ::
  "('aff, 'hdr) env \<Rightarrow> nat \<Rightarrow> real list \<Rightarrow> ('aff, 'hdr) state
     \<Rightarrow> py_error option \<times> ('aff, 'hdr) state" where
  "echo_loop E i [] st = (None, st)"
| "echo_loop E i (t # ts) st =
     (case echo_step E i t st of
        (Some e, st') \<Rightarrow> (Some e, st')
      | (None, st') \<Rightarrow> echo_loop E (Suc i) ts st')"

text \<open>Line 134: the loop starts with the prefix \<^verbatim>\<open>e\<close>, and here with an empty trace.\<close>

definition start_state ::
  "string \<Rightarrow> string \<Rightarrow> string \<Rightarrow> list_heap \<Rightarrow> ('aff, 'hdr) state" where
  "start_state nii img js ls =
     \<lparr>nifti = nii, echo_prefix = ''e'', nifti_img_path = img, nifti_json = js,
      heap = ls, trace = []\<rparr>"

definition materialize ::
  "('aff, 'hdr) env \<Rightarrow> real list \<Rightarrow> ('aff, 'hdr) state
     \<Rightarrow> py_error option \<times> ('aff, 'hdr) state" where
  "materialize E TEs st = echo_loop E 0 TEs st"

section \<open>The echo-time filter\<close>

lemma np_diff_Cons2: "np_diff (a # b # xs) = (b - a) # np_diff (b # xs)"
  by (simp add: np_diff_def)

lemma mask_select_Cons:
  "mask_select (x # xs) (m # ms) = (if m then x # mask_select xs ms else mask_select xs ms)"
  by (simp add: mask_select_def)

lemma kept_is_keep_rises:
  "mask_select xs (map (\<lambda>d. d > 0) (np_diff (p # xs))) = keep_rises p xs"
proof (induction xs arbitrary: p)
  case Nil
  show ?case by (simp add: mask_select_def)
next
  case (Cons x xs)
  show ?case
    using Cons.IH [of x] by (simp add: np_diff_Cons2 mask_select_Cons)
qed

lemma valid_TEs_Cons: "valid_TEs (t0 # rest) = Inr (t0 # keep_rises t0 rest)"
  using kept_is_keep_rises [of rest t0] by (simp add: valid_TEs_def)

lemma keep_rises_zip:
  "keep_rises p xs = map snd (filter (\<lambda>(a, b). a < b) (zip (p # xs) xs))"
  by (induction xs arbitrary: p) auto

lemma rises_exceed_sorted:
  "p \<le> m \<Longrightarrow>
   rises_exceed m p xs =
     ((\<forall>k \<in> set (keep_rises p xs). m < k) \<and> sorted_wrt (<) (keep_rises p xs))"
proof (induction xs arbitrary: m p)
  case Nil
  show ?case by simp
next
  case (Cons x xs)
  show ?case
  proof (cases "p < x")
    case True
    have "rises_exceed (max m x) x xs =
            ((\<forall>k \<in> set (keep_rises x xs). max m x < k) \<and> sorted_wrt (<) (keep_rises x xs))"
      by (rule Cons.IH) simp
    with True show ?thesis by auto
  next
    case False
    with Cons.prems have xm: "x \<le> m" by simp
    then have "max m x = m" by simp
    moreover have "rises_exceed m x xs =
            ((\<forall>k \<in> set (keep_rises x xs). m < k) \<and> sorted_wrt (<) (keep_rises x xs))"
      by (rule Cons.IH) (rule xm)
    ultimately show ?thesis using False by simp
  qed
qed

text \<open>
  C1. For the raw values 10, 10, 20, 15, 30 the kept echo times are those of 10, 20 and
  30. For every non-empty raw list the first value is kept, and a later value is kept
  if and only if it is strictly greater than the value just before it in the raw list:
  the kept list is the first value followed by the second components of the pairs of
  raw neighbours that rise, in order. (An empty raw list raises IndexError.)
\<close>

theorem echo_filter_pairwise:
  "extract_TEs [10, 10, 20, 15, 30] = Inr [10 / 1000000, 20 / 1000000, 30 / 1000000]
   \<and> valid_TEs [10, 10, 20, 15, 30] = Inr [10, 20, 30]
   \<and> (TEs \<noteq> [] \<longrightarrow>
        valid_TEs TEs =
          Inr (hd TEs # map snd (filter (\<lambda>(prev, cur). prev < cur) (zip TEs (tl TEs)))))"
proof -
  have a: "valid_TEs [10, 10, 20, 15, 30] = Inr [10, 20, 30]"
    by (simp add: valid_TEs_Cons)
  have b: "extract_TEs [10, 10, 20, 15, 30] = Inr [10 / 1000000, 20 / 1000000, 30 / 1000000]"
    by (simp add: extract_TEs_def scale_TEs_def valid_TEs_Cons)
  have c: "TEs \<noteq> [] \<longrightarrow>
        valid_TEs TEs =
          Inr (hd TEs # map snd (filter (\<lambda>(prev, cur). prev < cur) (zip TEs (tl TEs))))"
  proof (cases TEs)
    case Nil
    then show ?thesis by simp
  next
    case (Cons t0 rest)
    then show ?thesis by (simp add: valid_TEs_Cons keep_rises_zip)
  qed
  from a b c show ?thesis by blast
qed

theorem echo_filter_pairwise_witness:
  "valid_TEs [14, 38, 62, 62, 0] = Inr [14, 38, 62]"
  using echo_filter_pairwise [of "[14, 38, 62, 62, 0]"] by simp

text \<open>
  C2, as stated, fails: the raw list 30, 10, 20 is filtered to 30, 20, because 20 is
  compared with its raw predecessor 10 and not with the kept value 30.
\<close>

theorem echo_filter_not_increasing_counterexample:
  "valid_TEs [30, 10, 20] = Inr [30, 20] \<and> \<not> sorted_wrt (<) [30, 20 :: real]"
  by (simp add: valid_TEs_Cons)

text \<open>
  C2, amended. The list produced by the filter is strictly increasing exactly for the
  raw lists in which every value that is greater than its immediate predecessor is also
  greater than every earlier raw value.
\<close>

theorem echo_filter_increasing_iff:
  "valid_TEs TEs = Inr kept \<Longrightarrow> sorted_wrt (<) kept = rises_exceed_all_earlier TEs"
proof (cases TEs)
  case Nil
  assume "valid_TEs TEs = Inr kept"
  with Nil show ?thesis by (simp add: valid_TEs_def)
next
  case (Cons t0 rest)
  assume "valid_TEs TEs = Inr kept"
  with Cons have k: "kept = t0 # keep_rises t0 rest" by (simp add: valid_TEs_Cons)
  have "rises_exceed t0 t0 rest =
          ((\<forall>k \<in> set (keep_rises t0 rest). t0 < k) \<and> sorted_wrt (<) (keep_rises t0 rest))"
    by (rule rises_exceed_sorted) simp
  with k Cons show ?thesis by (simp add: rises_exceed_all_earlier_def)
qed

theorem echo_filter_increasing_iff_witness:
  "valid_TEs [10, 10, 20, 15, 30] = Inr [10, 20, 30]
   \<and> rises_exceed_all_earlier [10, 10, 20, 15, 30]
   \<and> sorted_wrt (<) [10, 20, 30 :: real]"
proof -
  have v: "valid_TEs [10, 10, 20, 15, 30] = Inr [10, 20, 30]"
    by (simp add: valid_TEs_Cons)
  from echo_filter_increasing_iff [OF v] v show ?thesis by simp
qed

section \<open>The argument relay\<close>

lemma py_insert_in_range:
  "n \<le> length xs \<Longrightarrow> py_insert (int n) x xs = take n xs @ x # drop n xs"
  by (simp add: py_insert_def Let_def min_absorb1)

lemma py_insert_negative:
  "i < 0 \<Longrightarrow>
   py_insert i x xs =
     take (nat (i + int (length xs))) xs @ x # drop (nat (i + int (length xs))) xs"
  by (simp add: py_insert_def Let_def max_def)

lemma inject_verbose_empty: "inject_verbose [] = Inr [''-v'', ''1'']"
  by (simp add: inject_verbose_def py_insert_negative)

lemma inject_verbose_absent:
  assumes "''-v'' \<notin> set other_args"
  shows "inject_verbose other_args =
     Inr (take (length other_args - 1) other_args @ [''-v'', ''1'']
          @ drop (length other_args - 1) other_args)"
proof (cases other_args)
  case Nil
  then show ?thesis by (simp add: inject_verbose_empty)
next
  case (Cons a as)
  let ?k = "length as"
  have idx: "int (length other_args) - 1 = int ?k" using Cons by simp
  have a1: "py_insert (int ?k) ''1'' other_args = take ?k other_args @ ''1'' # drop ?k other_args"
    using Cons by (intro py_insert_in_range) simp
  have a2: "py_insert (int ?k) ''-v'' (take ?k other_args @ ''1'' # drop ?k other_args)
        = take ?k other_args @ ''-v'' # ''1'' # drop ?k other_args"
    using Cons by (subst py_insert_in_range) simp_all
  have "inject_verbose other_args =
          Inr (take ?k other_args @ ''-v'' # ''1'' # drop ?k other_args)"
    using assms by (simp add: inject_verbose_def idx a1 a2 Let_def)
  then show ?thesis using Cons by simp
qed

text \<open>
  C4. For every argument list without \<^verbatim>\<open>-v\<close>, lines 35 to 38 return the list with
  the verbose flag \<^verbatim>\<open>-v\<close> and its level \<^verbatim>\<open>1\<close> inserted as one block in front of the
  last argument: the result holds \<^verbatim>\<open>-v\<close> exactly once, and deleting the two inserted
  entries gives the original list back, so every other argument keeps its place in the
  order. (For the empty list there is no last argument and the result is the flag and
  its level alone.)
\<close>

theorem relay_injects_verbose:
  assumes "''-v'' \<notin> set other_args"
  shows "\<exists>args. inject_verbose other_args = Inr args
     \<and> args = take (length other_args - 1) other_args @ [''-v'', ''1'']
              @ drop (length other_args - 1) other_args
     \<and> count_list args ''-v'' = 1
     \<and> take (length other_args - 1) args @ drop (length other_args - 1 + 2) args = other_args
     \<and> (other_args \<noteq> [] \<longrightarrow> args = butlast other_args @ [''-v'', ''1'', last other_args])"
proof -
  let ?n = "length other_args - 1"
  let ?args = "take ?n other_args @ [''-v'', ''1''] @ drop ?n other_args"
  have a: "inject_verbose other_args = Inr ?args"
    using assms by (rule inject_verbose_absent)
  have "''-v'' \<notin> set (take ?n other_args)" "''-v'' \<notin> set (drop ?n other_args)"
    using assms by (auto dest: in_set_takeD in_set_dropD)
  then have b: "count_list ?args ''-v'' = 1" by (simp add: count_list_0_iff)
  have c: "take ?n ?args @ drop (?n + 2) ?args = other_args"
    by simp
  have d: "other_args \<noteq> [] \<longrightarrow> ?args = butlast other_args @ [''-v'', ''1'', last other_args]"
  proof
    assume ne: "other_args \<noteq> []"
    then obtain ys y where "other_args = ys @ [y]"
      by (cases other_args rule: rev_cases) auto
    then show "?args = butlast other_args @ [''-v'', ''1'', last other_args]"
      by simp
  qed
  from a b c d show ?thesis by blast
qed

theorem relay_injects_verbose_witness:
  "inject_verbose [''-o'', ''out'', ''dicoms''] = Inr [''-o'', ''out'', ''-v'', ''1'', ''dicoms'']"
  using relay_injects_verbose [of "[''-o'', ''out'', ''dicoms'']"] by simp

text \<open>
  C5. For every argument list that holds \<^verbatim>\<open>-v\<close>, the relay stops with the usage error
  of line 40 and has performed no effect: no output directory is created and the wrapped
  converter is not called.
\<close>

theorem relay_rejects_verbose:
  "''-v'' \<in> set other_args \<Longrightarrow> relay other_args = ([], Inl verbose_conflict)"
  by (simp add: relay_def inject_verbose_def)

theorem relay_rejects_verbose_witness:
  "relay [''-v'', ''2'', ''dicoms''] = ([], Inl verbose_conflict)"
  using relay_rejects_verbose [of "[''-v'', ''2'', ''dicoms'']"] by simp

section \<open>Normalisation and the sanity check: properties\<close>

lemma np_min_Min: "data \<noteq> [] \<Longrightarrow> np_min data = Inr (Min (set data))"
proof (cases data)
  case Nil
  assume "data \<noteq> []"
  with Nil show ?thesis by simp
next
  case (Cons d ds)
  have "Min (set (d # ds)) = fold min ds d" by (rule Min.set_eq_fold)
  with Cons show ?thesis by (simp add: np_min_def)
qed

lemma np_max_Max: "data \<noteq> [] \<Longrightarrow> np_max data = Inr (Max (set data))"
proof (cases data)
  case Nil
  assume "data \<noteq> []"
  with Nil show ?thesis by simp
next
  case (Cons d ds)
  have "Max (set (d # ds)) = fold max ds d" by (rule Max.set_eq_fold)
  with Cons show ?thesis by (simp add: np_max_def)
qed

lemma normalize_nonempty:
  "data \<noteq> [] \<Longrightarrow>
   normalize data =
     Inr (map (\<lambda>x. f8_div (x - Min (set data)) (Max (set data) - Min (set data))) data)"
  by (simp add: normalize_def np_min_Min np_max_Max)

lemma normalize_constant:
  assumes ne: "data \<noteq> []" and eq: "Min (set data) = Max (set data)"
  shows "normalize data = Inr (replicate (length data) NaN)"
proof -
  have "\<And>x. x \<in> set data \<Longrightarrow> x = Min (set data)"
  proof -
    fix x assume x: "x \<in> set data"
    then have "Min (set data) \<le> x" "x \<le> Max (set data)" by simp_all
    with eq show "x = Min (set data)" by simp
  qed
  then have "map (\<lambda>x. f8_div (x - Min (set data)) (Max (set data) - Min (set data))) data
      = map (\<lambda>x. NaN) data"
    using eq by (intro map_cong) (simp_all add: f8_div_def)
  then show ?thesis using ne by (simp add: normalize_nonempty map_replicate_const)
qed

lemma not_isclose_NaN: "\<not> isclose a NaN" "\<not> isclose NaN b"
  by (cases a; simp) (cases b; simp)

lemma no_close_NaN_right: "xs \<noteq> [] \<Longrightarrow> \<not> list_all2 isclose ys (replicate (length xs) NaN)"
  by (cases xs; cases ys) (simp_all add: not_isclose_NaN)

lemma no_close_NaN_left: "xs \<noteq> [] \<Longrightarrow> \<not> list_all2 isclose (replicate (length xs) NaN) ys"
  by (cases xs; cases ys) (simp_all add: not_isclose_NaN)

lemma sanity_check_steps:
  assumes "first_echo_first_frame decoded = Inr a" "normalize a = Inr na"
    "first_frame nifti_dataobj = Inr b" "normalize b = Inr nb"
  shows "sanity_check decoded nifti_dataobj =
     (if length na \<noteq> length nb then Inl broadcast_error
      else if list_all2 isclose na nb then Inr () else Inl sanity_failed)"
  using assms by (simp add: sanity_check_def)

text \<open>
  C6. The slice 3, 3 and the frame 7, 7 differ by the scale 2 and the offset 1 only. Each
  normalises to not-a-number in every entry, not to values between 0 and 1, and the check
  raises the sanity-check error. For the slice 1, 2, 5, which is not constant, the frame
  10, 20, 50 (the slice under the scale 10) normalises to the same values 0, 1/4, 1 and
  the check passes, and the frame 10, 20, 51 (not the slice under any scale and offset)
  normalises to 0, 10/41, 1 and the check raises the sanity-check error.
\<close>

theorem sanity_check_raises_on_constant:
  "affine_rescale 2 1 [3, 3] = [7, 7]
   \<and> normalize [3, 3] = Inr [NaN, NaN]
   \<and> normalize [7, 7] = Inr [NaN, NaN]
   \<and> sanity_check [[[3, 3]]] (Vol3 [7, 7]) = Inl sanity_failed
   \<and> affine_rescale 10 0 [1, 2, 5] = [10, 20, 50]
   \<and> normalize [1, 2, 5] = Inr [Fin 0, Fin (1 / 4), Fin 1]
   \<and> normalize [10, 20, 50] = Inr [Fin 0, Fin (1 / 4), Fin 1]
   \<and> sanity_check [[[1, 2, 5]]] (Vol3 [10, 20, 50]) = Inr ()
   \<and> normalize [10, 20, 51] = Inr [Fin 0, Fin (10 / 41), Fin 1]
   \<and> sanity_check [[[1, 2, 5]]] (Vol3 [10, 20, 51]) = Inl sanity_failed"
  by (simp add: affine_rescale_def sanity_check_def first_echo_first_frame_def first_frame_def
      normalize_def np_min_def np_max_def f8_div_def)

text \<open>
  C10. When the minimum of a (non-empty) array equals its maximum, every entry of the
  normalised array is not-a-number, not a value between 0 and 1. The sanity check then
  raises whenever such an array is the decoded first-echo, first-frame slice or the
  official first frame: passing the check needs two different values on both sides.
\<close>

theorem normalize_constant_nan:
  assumes lo: "np_min data = Inr m" and hi: "np_max data = Inr m"
  shows "normalize data = Inr (replicate (length data) NaN) \<and> 0 < length data
     \<and> (first_echo_first_frame decoded = Inr data \<or> first_frame nifti_dataobj = Inr data
        \<longrightarrow> (\<exists>e. sanity_check decoded nifti_dataobj = Inl e))"
proof -
  from lo have ne: "data \<noteq> []" by (auto simp: np_min_def)
  from lo hi ne have "Min (set data) = Max (set data)" by (simp add: np_min_Min np_max_Max)
  with ne have n: "normalize data = Inr (replicate (length data) NaN)" by (rule normalize_constant)
  have "\<exists>e. sanity_check decoded nifti_dataobj = Inl e"
    if d: "first_echo_first_frame decoded = Inr data \<or> first_frame nifti_dataobj = Inr data"
  proof (cases "sanity_check decoded nifti_dataobj")
    case (Inl e)
    then show ?thesis by simp
  next
    case (Inr u)
    then obtain a na b nb where s: "first_echo_first_frame decoded = Inr a"
      "normalize a = Inr na" "first_frame nifti_dataobj = Inr b" "normalize b = Inr nb"
      by (auto simp: sanity_check_def split: sum.splits)
    from sanity_check_steps [OF s] Inr have c: "length na = length nb" "list_all2 isclose na nb"
      by (auto split: if_splits)
    from d s n have "na = replicate (length data) NaN \<or> nb = replicate (length data) NaN"
      by auto
    with c ne have False
      using no_close_NaN_left [of data nb] no_close_NaN_right [of data na] by auto
    then show ?thesis ..
  qed
  with n ne show ?thesis by simp
qed

theorem normalize_constant_nan_witness:
  "normalize [4, 4, 4] = Inr [NaN, NaN, NaN]
   \<and> (\<exists>e. sanity_check [[[4, 4, 4]]] (Vol3 [1, 2, 3]) = Inl e)"
proof -
  have "np_min [4, 4, 4] = Inr 4" "np_max [4, 4, 4] = Inr 4"
    by (simp_all add: np_min_def np_max_def)
  from normalize_constant_nan [OF this, of "[[[4, 4, 4]]]" "Vol3 [1, 2, 3]"]
  show ?thesis by (simp add: first_echo_first_frame_def numeral_3_eq_3)
qed

section \<open>Per-echo materialization: properties\<close>

lemma str_nat_digit: "n < 10 \<Longrightarrow> str_nat n = [digit_char n]"
  by (subst str_nat.simps) simp

text \<open>
  C7. Two echo times, the first-echo file \<^verbatim>\<open>out/sub_e1\<close> with the suffix \<^verbatim>\<open>.nii\<close>, a
  decoded array of two echo slices. When the metadata document has the \<^verbatim>\<open>ImageTypeText\<close>
  list \<^verbatim>\<open>ORIGINAL\<close>, \<^verbatim>\<open>TE1\<close>, the loop ends without an exception and issues the pair of
  echo 1: the image \<^verbatim>\<open>out/sub_e2.nii\<close> with the pixel data of slice 1 and the official
  affine and header, then the document \<^verbatim>\<open>out/sub_e2.json\<close> with the second echo time as
  \<^verbatim>\<open>EchoTime\<close> and \<^verbatim>\<open>dcmdat2niix\<close> as \<^verbatim>\<open>ConversionSoftware\<close>. When the document has no
  \<^verbatim>\<open>ImageTypeText\<close>, the iteration for echo 1 raises \<^verbatim>\<open>KeyError\<close> at line 171, before
  lines 177 and 180, and the trace is empty: no pair is issued for echo 1.
\<close>

theorem later_echo_pair_or_key_error:
  "materialize
     \<lparr>metadata = [''ImageTypeText'' \<mapsto> PList 0, ''EchoTime'' \<mapsto> PNum (14 / 1000)],
      suffix = ''.nii'', data_array = [[[1, 2]], [[3, 4]]], affine = aff, header = hdr\<rparr>
     [14 / 1000, 38 / 1000]
     (start_state ''out/sub_e1'' ''out/sub_e1.nii'' ''out/sub_e1.json''
        ((\<lambda>a. [])(0 := [JStr ''ORIGINAL'', JStr ''TE1''])))
   = (None,
      (start_state ''out/sub_e1'' ''out/sub_e1.nii'' ''out/sub_e1.json''
         ((\<lambda>a. [])(0 := [JStr ''ORIGINAL'', JStr ''TE2''])))
      \<lparr>trace :=
         [WriteImage ''out/sub_e2.nii'' [[3, 4]] aff hdr,
          WriteJson ''out/sub_e2.json''
            (document ((\<lambda>a. [])(0 := [JStr ''ORIGINAL'', JStr ''TE2'']))
               [''ImageTypeText'' \<mapsto> PList 0, ''EchoTime'' \<mapsto> PNum (38 / 1000),
                ''ConversionSoftware'' \<mapsto> PStr ''dcmdat2niix''])]\<rparr>)
   \<and> materialize
     \<lparr>metadata = [''EchoTime'' \<mapsto> PNum (14 / 1000)],
      suffix = ''.nii'', data_array = [[[1, 2]], [[3, 4]]], affine = aff, header = hdr\<rparr>
     [14 / 1000, 38 / 1000]
     (start_state ''out/sub_e1'' ''out/sub_e1.nii'' ''out/sub_e1.json'' (\<lambda>a. []))
   = (Some (KeyError ''ImageTypeText''),
      start_state ''out/sub_e1'' ''out/sub_e1.nii'' ''out/sub_e1.json'' (\<lambda>a. []))"
  by (simp add: document_def snapshot_def materialize_def echo_step_def first_echo_def
      resave_phase_def later_echo_def relabel_def TE_indices_def start_state_def
      path_name_def path_suffix_def with_suffix_def startswith_def echo_slice_def emit_def
      str_nat_digit digit_char_def Let_def)

text \<open>
  Line 162 replaces the marker in the whole path, not in the file name only: for the
  first-echo file \<^verbatim>\<open>que1/sub_e1\<close> the output base of echo 1 is \<^verbatim>\<open>que2/sub_e2\<close>, in
  another directory.
\<close>

lemma marker_replaced_in_directory:
  "py_replace (''e'' @ ''1'') (''e'' @ str_nat (1 + 1)) ''que1/sub_e1'' = ''que2/sub_e2''"
  by (simp add: startswith_def str_nat_digit digit_char_def)

text \<open>
  C9. Two echo times, the first-echo file \<^verbatim>\<open>out/sub_echo1\<close> with the suffix \<^verbatim>\<open>.nii\<close>, a
  decoded array of two echo slices. When the \<^verbatim>\<open>ImageTypeText\<close> list is \<^verbatim>\<open>ORIGINAL\<close>,
  \<^verbatim>\<open>PRIMARY\<close>, \<^verbatim>\<open>M\<close> (no entry holds \<^verbatim>\<open>TE\<close>), the relabelling is skipped without an
  exception: the list is left as it was and the pair of echo 1 is issued. When the
  document has no \<^verbatim>\<open>ImageTypeText\<close> at all, the lookup of line 171 raises \<^verbatim>\<open>KeyError\<close>,
  which line 173 does not catch: the loop stops with that exception in the iteration for
  echo 1 and the trace is empty, so the pair of echo 1 is not issued.
\<close>

theorem relabel_skip_or_key_error:
  "materialize
     \<lparr>metadata = [''ImageTypeText'' \<mapsto> PList 0],
      suffix = ''.nii'', data_array = [[[1, 2]], [[3, 4]]], affine = aff, header = hdr\<rparr>
     [14 / 1000, 38 / 1000]
     (start_state ''out/sub_echo1'' ''out/sub_echo1.nii'' ''out/sub_echo1.json''
        ((\<lambda>a. [])(0 := [JStr ''ORIGINAL'', JStr ''PRIMARY'', JStr ''M''])))
   = (None,
      (start_state ''out/sub_echo1'' ''out/sub_echo1.nii'' ''out/sub_echo1.json''
         ((\<lambda>a. [])(0 := [JStr ''ORIGINAL'', JStr ''PRIMARY'', JStr ''M''])))
      \<lparr>echo_prefix := ''echo'',
       trace :=
         [WriteImage ''out/sub_echo2.nii'' [[3, 4]] aff hdr,
          WriteJson ''out/sub_echo2.json''
            (document ((\<lambda>a. [])(0 := [JStr ''ORIGINAL'', JStr ''PRIMARY'', JStr ''M'']))
               [''ImageTypeText'' \<mapsto> PList 0, ''EchoTime'' \<mapsto> PNum (38 / 1000),
                ''ConversionSoftware'' \<mapsto> PStr ''dcmdat2niix''])]\<rparr>)
   \<and> materialize
     \<lparr>metadata = Map.empty,
      suffix = ''.nii'', data_array = [[[1, 2]], [[3, 4]]], affine = aff, header = hdr\<rparr>
     [14 / 1000, 38 / 1000]
     (start_state ''out/sub_echo1'' ''out/sub_echo1.nii'' ''out/sub_echo1.json'' (\<lambda>a. []))
   = (Some (KeyError ''ImageTypeText''),
      (start_state ''out/sub_echo1'' ''out/sub_echo1.nii'' ''out/sub_echo1.json'' (\<lambda>a. []))
      \<lparr>echo_prefix := ''echo''\<rparr>)"
  by (simp add: document_def snapshot_def materialize_def echo_step_def first_echo_def
      resave_phase_def later_echo_def relabel_def TE_indices_def start_state_def
      path_name_def path_suffix_def with_suffix_def startswith_def echo_slice_def emit_def
      str_nat_digit digit_char_def Let_def)

text \<open>
  C3. The copy of line 164 shares the \<^verbatim>\<open>ImageTypeText\<close> list with the original
  document. For a document whose list is \<^verbatim>\<open>ORIGINAL\<close>, \<^verbatim>\<open>TE1\<close> and two echo times, the
  loop ends without an exception, and the original document, read after the loop, has
  \<^verbatim>\<open>TE2\<close> in place of \<^verbatim>\<open>TE1\<close>.
\<close>

theorem shallow_copy_mutates_original:
  "document ((\<lambda>a. [])(0 := [JStr ''ORIGINAL'', JStr ''TE1'']))
      [''ImageTypeText'' \<mapsto> PList 0] ''ImageTypeText''
     = Some (JArr [JStr ''ORIGINAL'', JStr ''TE1''])
   \<and> fst (materialize
        \<lparr>metadata = [''ImageTypeText'' \<mapsto> PList 0], suffix = ''.nii'',
         data_array = [px0, px1], affine = aff, header = hdr\<rparr>
        [t0, t1]
        (start_state ''out/sub_e1'' ''out/sub_e1.nii'' ''out/sub_e1.json''
           ((\<lambda>a. [])(0 := [JStr ''ORIGINAL'', JStr ''TE1''])))) = None
   \<and> document
        (heap (snd (materialize
          \<lparr>metadata = [''ImageTypeText'' \<mapsto> PList 0], suffix = ''.nii'',
           data_array = [px0, px1], affine = aff, header = hdr\<rparr>
          [t0, t1]
          (start_state ''out/sub_e1'' ''out/sub_e1.nii'' ''out/sub_e1.json''
             ((\<lambda>a. [])(0 := [JStr ''ORIGINAL'', JStr ''TE1''])))))) 
        [''ImageTypeText'' \<mapsto> PList 0] ''ImageTypeText''
     = Some (JArr [JStr ''ORIGINAL'', JStr ''TE2''])"
  by (simp add: document_def snapshot_def materialize_def echo_step_def first_echo_def
      resave_phase_def later_echo_def relabel_def TE_indices_def start_state_def
      path_name_def path_suffix_def with_suffix_def startswith_def echo_slice_def emit_def
      str_nat_digit digit_char_def Let_def)

text \<open>
  C8. For the phase image \<^verbatim>\<open>out/sub_echo1_ph\<close> the iteration for echo 0 only sets the
  prefix to \<^verbatim>\<open>echo\<close>: the trace stays empty, so the image is not written again. For
  \<^verbatim>\<open>out/sub_e1_ph\<close> the same iteration writes the first-echo slice to the image's path
  with the official affine and header.
\<close>

theorem synonym_phase_not_resaved:
  "str_in ''_ph'' (path_name ''out/sub_echo1_ph'')
   \<and> materialize E [t0]
        (start_state ''out/sub_echo1_ph'' ''out/sub_echo1_ph.nii'' ''out/sub_echo1_ph.json'' h)
      = (None, (start_state ''out/sub_echo1_ph'' ''out/sub_echo1_ph.nii''
                 ''out/sub_echo1_ph.json'' h)\<lparr>echo_prefix := ''echo''\<rparr>)
   \<and> trace (snd (materialize E [t0]
        (start_state ''out/sub_echo1_ph'' ''out/sub_echo1_ph.nii'' ''out/sub_echo1_ph.json'' h)))
      = []
   \<and> trace (snd (materialize (E\<lparr>data_array := [px0]\<rparr>) [t0]
        (start_state ''out/sub_e1_ph'' ''out/sub_e1_ph.nii'' ''out/sub_e1_ph.json'' h)))
      = [WriteImage ''out/sub_e1_ph.nii'' px0 (affine E) (header E)]"
  by (simp add: materialize_def echo_step_def first_echo_def resave_phase_def start_state_def
      path_name_def startswith_def echo_slice_def emit_def)

end
